theory Spec2Isabelle
  imports Complex_Main
begin

section \<open>Data model of \<^verbatim>\<open>name_generator/generator.py\<close>\<close>

text \<open>
  Python floats are modelled by the real numbers they denote: comparisons are the
  comparisons of the source, arithmetic is exact (no rounding). The literals
  \<^verbatim>\<open>0.40\<close> and \<^verbatim>\<open>0.20\<close> are the reals 0.40 and 0.20. Python strings
  are \<open>string\<close>, \<^verbatim>\<open>Optional[T]\<close> is \<open>T option\<close>, Python's unbounded \<^verbatim>\<open>int\<close>
  is \<open>int\<close>.
\<close>

datatype Gender = MALE | FEMALE | ANY

fun Gender_value :: "Gender \<Rightarrow> string" where
  "Gender_value MALE = ''M''"
| "Gender_value FEMALE = ''F''"
| "Gender_value Gender.ANY = ''ANY''"

datatype Ethnicity = WHITE | BLACK | HISPANIC | ASIAN | OTHER | ANY

fun Ethnicity_value :: "Ethnicity \<Rightarrow> string" where
  "Ethnicity_value WHITE = ''white''"
| "Ethnicity_value BLACK = ''black''"
| "Ethnicity_value HISPANIC = ''hispanic''"
| "Ethnicity_value ASIAN = ''asian''"
| "Ethnicity_value OTHER = ''other''"
| "Ethnicity_value Ethnicity.ANY = ''any''"

text \<open>The exceptions the generator and the library calls it makes can raise.\<close>

datatype error =
    FileNotFoundError string
  | ValueError string
  | IndexError string
  | AttributeError string
  | OperationalError string

text \<open>The call \<^verbatim>\<open>Ethnicity(s)\<close> of the enum class: lookup by value, \<^verbatim>\<open>ValueError\<close>
  for a string that is no member's value.\<close>

definition Ethnicity_of :: "string \<Rightarrow> error + Ethnicity" where
  "Ethnicity_of v =
     (if v = ''white'' then Inr WHITE
      else if v = ''black'' then Inr BLACK
      else if v = ''hispanic'' then Inr HISPANIC
      else if v = ''asian'' then Inr ASIAN
      else if v = ''other'' then Inr OTHER
      else if v = ''any'' then Inr Ethnicity.ANY
      else Inl (ValueError (CHR 0x27 # v @ CHR 0x27 # '' is not a valid Ethnicity'')))"

text \<open>\<^verbatim>\<open>DEFAULT_ETHNIC_DISTRIBUTION\<close>: a dict, kept as an association list in
  insertion order (the order \<^verbatim>\<open>keys()\<close> and \<^verbatim>\<open>values()\<close> list it in).\<close>

definition DEFAULT_ETHNIC_DISTRIBUTION :: "(string \<times> real) list" where
  "DEFAULT_ETHNIC_DISTRIBUTION =
     [(''white'', 0.60), (''hispanic'', 0.18), (''black'', 0.13),
      (''asian'', 0.06), (''other'', 0.03)]"

record NameRecord =
  name :: string
  gender :: "string option"
  count :: int
  prob_white :: real
  prob_black :: real
  prob_hispanic :: real
  prob_asian :: real
  prob_other :: real

text \<open>\<^verbatim>\<open>getattr(name, f"prob_{ethnicity}")\<close>: the attribute of that name, or
  \<^verbatim>\<open>AttributeError\<close> (here \<open>None\<close>) when the record has none.\<close>

definition prob_attr :: "string \<Rightarrow> (NameRecord \<Rightarrow> real) option" where
  "prob_attr ethnicity =
     (if ethnicity = ''white'' then Some prob_white
      else if ethnicity = ''black'' then Some prob_black
      else if ethnicity = ''hispanic'' then Some prob_hispanic
      else if ethnicity = ''asian'' then Some prob_asian
      else if ethnicity = ''other'' then Some prob_other
      else None)"

subsection \<open>The database\<close>

text \<open>
  A row of the tables \<^verbatim>\<open>first_names\<close> and \<^verbatim>\<open>surnames\<close> that
  \<^verbatim>\<open>data_loader.py\<close> creates. The column \<^verbatim>\<open>gender\<close> is nullable (\<open>None\<close> is
  SQL's NULL); the table \<^verbatim>\<open>surnames\<close> has no such column, and the field is not read
  for its rows.
\<close>

record row =
  row_name :: string
  row_gender :: "string option"
  row_count :: int
  row_prob_white :: real
  row_prob_black :: real
  row_prob_hispanic :: real
  row_prob_asian :: real
  row_prob_other :: real

record database =
  first_names :: "row list"
  surnames :: "row list"

text \<open>The generator object: its path, and the database file at that path if one
  exists (\<open>None\<close>: \<^verbatim>\<open>db_path.exists()\<close> is false).\<close>

record NameGenerator =
  db_path :: string
  db_file :: "database option"

text \<open>
  The query string and parameter list \<^verbatim>\<open>_fetch_names\<close> builds:
  \<^verbatim>\<open>SELECT * FROM {table} WHERE prob_{ethnicity} >= ?\<close> with parameter \<open>q_min\<close>,
  followed by \<^verbatim>\<open>AND gender = ?\<close> with its parameter when \<open>q_gender\<close> is not \<open>None\<close>.
\<close>

record query =
  q_table :: string
  q_ethnicity :: string
  q_min :: real
  q_gender :: "string option"

text \<open>
  The state a call runs in: the values the next calls of \<^verbatim>\<open>random.random()\<close> return
  (\<open>rand\<close> at positions \<open>pos\<close>, \<open>pos + 1\<close>, ...), and the log of the queries executed on
  the connection so far.
\<close>

record state =
  rand :: "nat \<Rightarrow> real"
  pos :: nat
  queries :: "query list"

type_synonym 'a result = "(error + 'a) \<times> state"

text \<open>Sequencing of two steps: an exception of the first ends the run.\<close>

definition and_then :: "(state \<Rightarrow> 'a result) \<Rightarrow> ('a \<Rightarrow> state \<Rightarrow> 'b result) \<Rightarrow> state \<Rightarrow> 'b result" where
  "and_then m f s = (case m s of (Inl e, s') \<Rightarrow> (Inl e, s') | (Inr x, s') \<Rightarrow> f x s')"

definition raise :: "error \<Rightarrow> state \<Rightarrow> 'a result" where
  "raise e s = (Inl e, s)"

definition return :: "'a \<Rightarrow> state \<Rightarrow> 'a result" where
  "return x s = (Inr x, s)"

section \<open>The library calls\<close>

text \<open>\<^verbatim>\<open>random.random()\<close>: the next value of the generator.\<close>

definition random :: "state \<Rightarrow> real \<times> state" where
  "random s = (rand s (pos s), s\<lparr>pos := Suc (pos s)\<rparr>)"

text \<open>\<^verbatim>\<open>itertools.accumulate(weights)\<close>: the running sums.\<close>

fun accumulate_from :: "real \<Rightarrow> real list \<Rightarrow> real list" where
  "accumulate_from acc [] = []"
| "accumulate_from acc (w # ws) = (acc + w) # accumulate_from (acc + w) ws"

definition accumulate :: "real list \<Rightarrow> real list" where
  "accumulate ws = accumulate_from 0 ws"

text \<open>
  \<^verbatim>\<open>bisect.bisect_right(a, x, lo, hi)\<close>:
  \<^verbatim>\<open>
  while lo < hi:
      mid = (lo + hi) // 2
      if x < a[mid]: hi = mid
      else: lo = mid + 1
  return lo
  \<close>
\<close>

function bisect_right :: "real list \<Rightarrow> real \<Rightarrow> nat \<Rightarrow> nat \<Rightarrow> nat" where
  "bisect_right a x lo hi =
     (if lo < hi then
        (let mid = (lo + hi) div 2
         in if x < a ! mid then bisect_right a x lo mid else bisect_right a x (mid + 1) hi)
      else lo)"
  by pat_completeness auto
termination
  by (relation "measure (\<lambda>(a, x, lo, hi). hi - lo)") auto

declare bisect_right.simps [simp del]

text \<open>
  \<^verbatim>\<open>random.choices(population, weights=weights, k=1)[0]\<close> of the Python standard
  library (CPython 3.9 and later):
  \<^verbatim>\<open>
  n = len(population)
  cum_weights = list(accumulate(weights))
  if len(cum_weights) != n: raise ValueError(...)
  total = cum_weights[-1] + 0.0
  if total <= 0.0: raise ValueError('Total of weights must be greater than zero')
  hi = n - 1
  return [population[bisect(cum_weights, random() * total, 0, hi)] for i in range(k)]
  \<close>
  \<^verbatim>\<open>cum_weights[-1]\<close> raises \<^verbatim>\<open>IndexError\<close> on an empty population.
\<close>

definition choices :: "'a list \<Rightarrow> real list \<Rightarrow> state \<Rightarrow> 'a result" where
  "choices population weights s =
     (let n = length population; cum_weights = accumulate weights
      in if length cum_weights \<noteq> n then
           raise (ValueError ''The number of weights does not match the population'') s
         else if cum_weights = [] then raise (IndexError ''list index out of range'') s
         else
           (let total = last cum_weights
            in if total \<le> 0 then
                 raise (ValueError ''Total of weights must be greater than zero'') s
               else
                 (let (u, s') = random s
                  in return (population ! bisect_right cum_weights (u * total) 0 (n - 1)) s')))"

section \<open>The generator\<close>

text \<open>The property \<^verbatim>\<open>conn\<close>: the file must exist when the connection is opened. The
  file system does not change during a run, so the cached connection \<^verbatim>\<open>_conn\<close> answers
  as a fresh one does; a file that exists is a database with both tables.\<close>

definition conn :: "NameGenerator \<Rightarrow> error + database" where
  "conn self =
     (case db_file self of
        None \<Rightarrow> Inl (FileNotFoundError (''Database not found at '' @ db_path self @
          ''. Run 'python -m name_generator.data_loader' to download and set up data.''))
      | Some d \<Rightarrow> Inr d)"

definition select_ethnicity ::
  "Ethnicity option \<Rightarrow> (string \<times> real) list option \<Rightarrow> state \<Rightarrow> string result" where
  "select_ethnicity ethnicity distribution s =
     (case ethnicity of
        Some e \<Rightarrow>
          if e \<noteq> Ethnicity.ANY then return (Ethnicity_value e) s
          else
            (let d = (case distribution of None \<Rightarrow> DEFAULT_ETHNIC_DISTRIBUTION | Some d \<Rightarrow> d)
             in choices (map fst d) (map snd d) s)
      | None \<Rightarrow>
          (let d = (case distribution of None \<Rightarrow> DEFAULT_ETHNIC_DISTRIBUTION | Some d \<Rightarrow> d)
           in choices (map fst d) (map snd d) s))"

text \<open>
  The two query shapes \<^verbatim>\<open>_fetch_names\<close> sends, as SQLite evaluates them on a
  database with the schema of \<^verbatim>\<open>data_loader.py\<close>: a table or column that does not
  exist is an \<^verbatim>\<open>OperationalError\<close>; a row is selected when its probability
  column is at least the parameter and, when the gender condition is present, its
  gender equals the parameter (a NULL gender equals nothing). Rows come in table order.
  The probability and count columns hold numbers, as the fields of \<^verbatim>\<open>NameRecord\<close>
  are declared; a category string other than the five column suffixes names no column.
\<close>

definition table_rows :: "database \<Rightarrow> string \<Rightarrow> row list option" where
  "table_rows d table =
     (if table = ''first_names'' then Some (first_names d)
      else if table = ''surnames'' then Some (surnames d)
      else None)"

definition prob_column :: "string \<Rightarrow> (row \<Rightarrow> real) option" where
  "prob_column ethnicity =
     (if ethnicity = ''white'' then Some row_prob_white
      else if ethnicity = ''black'' then Some row_prob_black
      else if ethnicity = ''hispanic'' then Some row_prob_hispanic
      else if ethnicity = ''asian'' then Some row_prob_asian
      else if ethnicity = ''other'' then Some row_prob_other
      else None)"

definition row_matches :: "(row \<Rightarrow> real) \<Rightarrow> query \<Rightarrow> row \<Rightarrow> bool" where
  "row_matches col q r =
     (q_min q \<le> col r \<and>
      (case q_gender q of None \<Rightarrow> True | Some v \<Rightarrow> row_gender r = Some v))"

definition execute :: "database \<Rightarrow> query \<Rightarrow> error + row list" where
  "execute d q =
     (case table_rows d (q_table q) of
        None \<Rightarrow> Inl (OperationalError (''no such table: '' @ q_table q))
      | Some rows \<Rightarrow>
          (case prob_column (q_ethnicity q) of
             None \<Rightarrow> Inl (OperationalError (''no such column: prob_'' @ q_ethnicity q))
           | Some col \<Rightarrow> Inr (filter (row_matches col q) rows)))"

text \<open>
  The loop body of \<^verbatim>\<open>_fetch_names\<close>: \<^verbatim>\<open>row["gender"] if row["gender"] else None\<close>,
  which makes an empty string \<open>None\<close>, and \<open>None\<close> on the \<^verbatim>\<open>IndexError\<close> of a table
  without the column.
\<close>

definition to_record :: "string \<Rightarrow> row \<Rightarrow> NameRecord" where
  "to_record table r =
     \<lparr>name = row_name r,
      gender =
        (if table = ''first_names'' then
           (case row_gender r of None \<Rightarrow> None | Some v \<Rightarrow> if v = [] then None else Some v)
         else None),
      count = row_count r,
      prob_white = row_prob_white r,
      prob_black = row_prob_black r,
      prob_hispanic = row_prob_hispanic r,
      prob_asian = row_prob_asian r,
      prob_other = row_prob_other r\<rparr>"

definition build_query :: "string \<Rightarrow> string \<Rightarrow> Gender option \<Rightarrow> real \<Rightarrow> query" where
  "build_query table ethnicity gen min_probability =
     (let q = \<lparr>q_table = table, q_ethnicity = ethnicity, q_min = min_probability,
                q_gender = None\<rparr>
      in case gen of
           None \<Rightarrow> q
         | Some g \<Rightarrow>
             if g \<noteq> Gender.ANY \<and> table = ''first_names''
             then q\<lparr>q_gender := Some (Gender_value g)\<rparr> else q)"

definition fetch_names ::
  "NameGenerator \<Rightarrow> string \<Rightarrow> string \<Rightarrow> Gender option \<Rightarrow> real \<Rightarrow> state \<Rightarrow> NameRecord list result" where
  "fetch_names self table ethnicity gen min_probability s =
     (let q = build_query table ethnicity gen min_probability
      in case conn self of
           Inl e \<Rightarrow> raise e s
         | Inr d \<Rightarrow>
             (let s' = s\<lparr>queries := queries s @ [q]\<rparr>
              in case execute d q of
                   Inl e \<Rightarrow> raise e s'
                 | Inr rows \<Rightarrow> return (map (to_record table) rows) s'))"

definition weights_of :: "(NameRecord \<Rightarrow> real) \<Rightarrow> NameRecord list \<Rightarrow> real list" where
  "weights_of p names = map (\<lambda>n. p n * (1 + real_of_int (count n) / 100000)) names"

definition weighted_select :: "NameRecord list \<Rightarrow> string \<Rightarrow> state \<Rightarrow> NameRecord result" where
  "weighted_select names ethnicity s =
     (if names = [] then raise (ValueError ''No names available for selection'') s
      else
        (case prob_attr ethnicity of
           None \<Rightarrow> raise (AttributeError (''prob_'' @ ethnicity)) s
         | Some p \<Rightarrow> choices names (weights_of p names) s))"

definition generate_first_name ::
  "NameGenerator \<Rightarrow> Ethnicity option \<Rightarrow> Gender option \<Rightarrow> (string \<times> real) list option \<Rightarrow> real
    \<Rightarrow> state \<Rightarrow> NameRecord result" where
  "generate_first_name self ethnicity gen distribution min_probability =
     and_then (select_ethnicity ethnicity distribution) (\<lambda>target_ethnicity.
       let g = (case gen of None \<Rightarrow> Gender.ANY | Some g \<Rightarrow> g)
       in and_then (fetch_names self ''first_names'' target_ethnicity (Some g) min_probability)
            (\<lambda>names.
               and_then
                 (if names = [] \<and> 0.20 < min_probability
                  then fetch_names self ''first_names'' target_ethnicity (Some g) 0.20
                  else return names)
                 (\<lambda>names.
                    if names = [] then
                      raise (ValueError (''No first names found for ethnicity='' @
                        target_ethnicity @ '', gender='' @ Gender_value g))
                    else weighted_select names target_ethnicity)))"

definition generate_last_name ::
  "NameGenerator \<Rightarrow> Ethnicity option \<Rightarrow> (string \<times> real) list option \<Rightarrow> real
    \<Rightarrow> state \<Rightarrow> NameRecord result" where
  "generate_last_name self ethnicity distribution min_probability =
     and_then (select_ethnicity ethnicity distribution) (\<lambda>target_ethnicity.
       and_then (fetch_names self ''surnames'' target_ethnicity None min_probability)
         (\<lambda>names.
            and_then
              (if names = [] \<and> 0.20 < min_probability
               then fetch_names self ''surnames'' target_ethnicity None 0.20
               else return names)
              (\<lambda>names.
                 if names = [] then
                   raise (ValueError (''No surnames found for ethnicity='' @ target_ethnicity))
                 else weighted_select names target_ethnicity)))"

definition generate_full_name ::
  "NameGenerator \<Rightarrow> Ethnicity option \<Rightarrow> Gender option \<Rightarrow> (string \<times> real) list option \<Rightarrow> real
    \<Rightarrow> state \<Rightarrow> (NameRecord \<times> NameRecord) result" where
  "generate_full_name self ethnicity gen distribution min_probability =
     and_then (select_ethnicity ethnicity distribution) (\<lambda>target_ethnicity.
       and_then (\<lambda>s. (Ethnicity_of target_ethnicity, s)) (\<lambda>e1.
         and_then (generate_first_name self (Some e1) gen distribution min_probability)
           (\<lambda>first_name.
              and_then (\<lambda>s. (Ethnicity_of target_ethnicity, s)) (\<lambda>e2.
                and_then (generate_last_name self (Some e2) distribution min_probability)
                  (\<lambda>last_name. return (first_name, last_name))))))"

text \<open>
  \<^verbatim>\<open>round(x, 3)\<close> on the real \<open>x\<close>: the nearest multiple of 1/1000, a tie going to
  the even one.
\<close>

definition round3 :: "real \<Rightarrow> real" where
  "round3 x =
     (let y = x * 1000; f = \<lfloor>y\<rfloor>; d = y - of_int f
      in of_int (if d < 1 / 2 then f else if 1 / 2 < d then f + 1
                 else if even f then f else f + 1) / 1000)"

text \<open>The values of the dictionaries \<^verbatim>\<open>generate_batch\<close> returns; a dictionary is an
  association list in insertion order.\<close>

datatype entry_value =
    Str string
  | OptStr "string option"
  | Probabilities "(string \<times> real) list"

definition full_entry :: "NameRecord \<Rightarrow> NameRecord \<Rightarrow> (string \<times> entry_value) list" where
  "full_entry first_rec last_rec =
     [(''first_name'', Str (name first_rec)),
      (''last_name'', Str (name last_rec)),
      (''full_name'', Str (name first_rec @ '' '' @ name last_rec)),
      (''gender'', OptStr (gender first_rec)),
      (''ethnicity_probabilities'', Probabilities
         [(''white'', round3 ((prob_white first_rec + prob_white last_rec) / 2)),
          (''black'', round3 ((prob_black first_rec + prob_black last_rec) / 2)),
          (''hispanic'', round3 ((prob_hispanic first_rec + prob_hispanic last_rec) / 2)),
          (''asian'', round3 ((prob_asian first_rec + prob_asian last_rec) / 2)),
          (''other'', round3 ((prob_other first_rec + prob_other last_rec) / 2))])]"

definition first_entry :: "NameRecord \<Rightarrow> (string \<times> entry_value) list" where
  "first_entry first_rec =
     [(''first_name'', Str (name first_rec)),
      (''gender'', OptStr (gender first_rec)),
      (''ethnicity_probabilities'', Probabilities
         [(''white'', prob_white first_rec),
          (''black'', prob_black first_rec),
          (''hispanic'', prob_hispanic first_rec),
          (''asian'', prob_asian first_rec),
          (''other'', prob_other first_rec)])]"

text \<open>The loop \<^verbatim>\<open>for _ in range(count)\<close> of \<^verbatim>\<open>generate_batch\<close>, with the iterations
  left to run and the list \<^verbatim>\<open>results\<close>; both calls use the default
  \<^verbatim>\<open>min_probability\<close> of 0.40.\<close>

fun batch_loop ::
  "nat \<Rightarrow> NameGenerator \<Rightarrow> Ethnicity option \<Rightarrow> Gender option \<Rightarrow> bool
    \<Rightarrow> (string \<times> real) list option \<Rightarrow> (string \<times> entry_value) list list
    \<Rightarrow> state \<Rightarrow> (string \<times> entry_value) list list result" where
  "batch_loop 0 self ethnicity gen include_surnames distribution results = return results"
| "batch_loop (Suc k) self ethnicity gen include_surnames distribution results =
     (if include_surnames then
        and_then (generate_full_name self ethnicity gen distribution 0.40) (\<lambda>(first_rec, last_rec).
          batch_loop k self ethnicity gen include_surnames distribution
            (results @ [full_entry first_rec last_rec]))
      else
        and_then (generate_first_name self ethnicity gen distribution 0.40) (\<lambda>first_rec.
          batch_loop k self ethnicity gen include_surnames distribution
            (results @ [first_entry first_rec])))"

definition generate_batch ::
  "NameGenerator \<Rightarrow> int \<Rightarrow> Ethnicity option \<Rightarrow> Gender option \<Rightarrow> bool
    \<Rightarrow> (string \<times> real) list option \<Rightarrow> state \<Rightarrow> (string \<times> entry_value) list list result" where
  "generate_batch self cnt ethnicity gen include_surnames distribution =
     batch_loop (nat cnt) self ethnicity gen include_surnames distribution []"

section \<open>Example data\<close>

text \<open>The sample database of \<^verbatim>\<open>tests/test_generator.py\<close> (fixture \<^verbatim>\<open>mock_db\<close>):
  the rows its \<^verbatim>\<open>INSERT\<close> statements create, in order.\<close>

definition first_name_row ::
  "string \<Rightarrow> string \<Rightarrow> int \<Rightarrow> real \<Rightarrow> real \<Rightarrow> real \<Rightarrow> real \<Rightarrow> real \<Rightarrow> row" where
  "first_name_row n g c w b h a ot =
     \<lparr>row_name = n, row_gender = Some g, row_count = c, row_prob_white = w,
      row_prob_black = b, row_prob_hispanic = h, row_prob_asian = a, row_prob_other = ot\<rparr>"

definition surname_row ::
  "string \<Rightarrow> int \<Rightarrow> real \<Rightarrow> real \<Rightarrow> real \<Rightarrow> real \<Rightarrow> real \<Rightarrow> row" where
  "surname_row n c w b h a ot =
     \<lparr>row_name = n, row_gender = None, row_count = c, row_prob_white = w,
      row_prob_black = b, row_prob_hispanic = h, row_prob_asian = a, row_prob_other = ot\<rparr>"

definition mock_db :: database where
  "mock_db =
     \<lparr>first_names =
        [first_name_row ''Maria'' ''F'' 10000 0.10 0.05 0.75 0.08 0.02,
         first_name_row ''Jose'' ''M'' 8000 0.08 0.03 0.80 0.07 0.02,
         first_name_row ''Jennifer'' ''F'' 12000 0.70 0.15 0.10 0.03 0.02,
         first_name_row ''Michael'' ''M'' 15000 0.65 0.20 0.10 0.03 0.02,
         first_name_row ''Wei'' ''M'' 3000 0.05 0.02 0.03 0.88 0.02,
         first_name_row ''Jamal'' ''M'' 4000 0.05 0.85 0.05 0.03 0.02,
         first_name_row ''Emily'' ''F'' 11000 0.75 0.10 0.08 0.05 0.02],
      surnames =
        [surname_row ''Garcia'' 20000 0.05 0.03 0.85 0.05 0.02,
         surname_row ''Smith'' 30000 0.70 0.20 0.05 0.03 0.02,
         surname_row ''Johnson'' 25000 0.60 0.30 0.05 0.03 0.02,
         surname_row ''Wang'' 8000 0.03 0.01 0.02 0.92 0.02,
         surname_row ''Williams'' 22000 0.45 0.48 0.03 0.02 0.02,
         surname_row ''Rodriguez'' 18000 0.04 0.02 0.88 0.04 0.02]\<rparr>"

definition mock_generator :: NameGenerator where
  "mock_generator = \<lparr>db_path = ''mock.db'', db_file = Some mock_db\<rparr>"

text \<open>A state with no query run yet, in which \<^verbatim>\<open>random.random()\<close> returns the
  values of the list in turn (and 0 after them).\<close>

definition draws :: "real list \<Rightarrow> nat \<Rightarrow> real" where
  "draws us k = (if k < length us then us ! k else 0)"

definition initial_state :: "real list \<Rightarrow> state" where
  "initial_state us = \<lparr>rand = draws us, pos = 0, queries = []\<rparr>"




text \<open>The other example of the specification: the only record that matches category
  \<^verbatim>\<open>white\<close> has probability 0.35, below the default threshold and above the relaxed
  one.\<close>

definition relaxed_generator :: NameGenerator where
  "relaxed_generator = \<lparr>db_path = ''relaxed.db'', db_file = Some
     \<lparr>first_names = [first_name_row ''Alex'' ''M'' 100 0.35 0.25 0.20 0.10 0.10],
      surnames = []\<rparr>\<rparr>"

section \<open>Observing a run\<close>

text \<open>\<open>logs P m\<close>: whatever the state, the queries the step \<open>m\<close> executes are added
  at the end of the log, and each of them satisfies \<open>P\<close>.\<close>

definition logs :: "(query \<Rightarrow> bool) \<Rightarrow> (state \<Rightarrow> 'a result) \<Rightarrow> bool" where
  "logs P m = (\<forall>s. \<exists>qs. queries (snd (m s)) = queries s @ qs \<and> (\<forall>q \<in> set qs. P q))"

section \<open>Properties\<close>

subsection \<open>Sequencing\<close>

lemma and_then_Inr:
  "and_then m f s = (Inr y, s'') \<Longrightarrow> \<exists>x s'. m s = (Inr x, s') \<and> f x s' = (Inr y, s'')"
  by (auto simp: and_then_def split: prod.splits sum.splits)

text \<open>The definitions a run on concrete data unfolds.\<close>

lemmas run_defs =
  generate_first_name_def generate_last_name_def generate_full_name_def select_ethnicity_def
  fetch_names_def weighted_select_def choices_def and_then_def raise_def return_def random_def
  conn_def execute_def build_query_def table_rows_def prob_column_def prob_attr_def
  row_matches_def to_record_def weights_of_def accumulate_def Let_def
  mock_generator_def mock_db_def first_name_row_def surname_row_def Ethnicity_of_def
  DEFAULT_ETHNIC_DISTRIBUTION_def initial_state_def draws_def bisect_right.simps

subsection \<open>The library calls\<close>

lemma bisect_right_bounds:
  "lo \<le> hi \<Longrightarrow> lo \<le> bisect_right a x lo hi \<and> bisect_right a x lo hi \<le> hi"
proof (induction a x lo hi rule: bisect_right.induct)
  case (1 a x lo hi)
  show ?case
  proof (cases "lo < hi")
    case False
    have "bisect_right a x lo hi = lo"
      using False by (subst bisect_right.simps) simp
    with "1.prems" show ?thesis by simp
  next
    case True
    define mid where "mid = (lo + hi) div 2"
    have m: "lo \<le> mid" "mid < hi" using True by (simp_all add: mid_def)
    show ?thesis
    proof (cases "x < a ! mid")
      case True
      with "1.IH"(1) [OF \<open>lo < hi\<close> mid_def True] m
      have "lo \<le> bisect_right a x lo mid \<and> bisect_right a x lo mid \<le> mid" by simp
      with True \<open>lo < hi\<close> m show ?thesis
        by (simp add: bisect_right.simps [of a x lo hi] mid_def [symmetric] Let_def)
    next
      case False
      with "1.IH"(2) [OF \<open>lo < hi\<close> mid_def False] m
      have "mid + 1 \<le> bisect_right a x (mid + 1) hi \<and> bisect_right a x (mid + 1) hi \<le> hi"
        by simp
      with False \<open>lo < hi\<close> m show ?thesis
        by (simp add: bisect_right.simps [of a x lo hi] mid_def [symmetric] Let_def)
    qed
  qed
qed


text \<open>A successful draw returns a member of the population and calls
  \<^verbatim>\<open>random()\<close> once.\<close>

lemma choices_member:
  assumes "choices population weights s = (Inr x, s')"
  shows "x \<in> set population \<and> s' = s\<lparr>pos := Suc (pos s)\<rparr>"
proof -
  let ?c = "accumulate weights"
  let ?k = "bisect_right ?c (rand s (pos s) * last ?c) 0 (length population - 1)"
  from assms have len: "length ?c = length population" and ne: "?c \<noteq> []"
    and tot: "\<not> last ?c \<le> 0"
    by (auto simp: choices_def Let_def raise_def split: if_splits)
  from ne len have pos: "0 < length population" by auto
  from assms len ne tot have x: "x = population ! ?k" and s': "s' = s\<lparr>pos := Suc (pos s)\<rparr>"
    by (auto simp: choices_def Let_def raise_def return_def random_def)
  have "?k \<le> length population - 1"
    using bisect_right_bounds [of 0 "length population - 1"] by simp
  with pos have "?k < length population" by linarith
  with x s' show ?thesis by simp
qed

lemma choices_queries: "queries (snd (choices population weights s)) = queries s"
  by (simp add: choices_def Let_def raise_def return_def random_def split: prod.splits)

subsection \<open>Resolution, fetching and sampling\<close>

lemma select_ethnicity_concrete:
  "e \<noteq> Ethnicity.ANY \<Longrightarrow>
     select_ethnicity (Some e) distribution s = (Inr (Ethnicity_value e), s)"
  by (simp add: select_ethnicity_def return_def)

lemma select_ethnicity_queries:
  "queries (snd (select_ethnicity ethnicity distribution s)) = queries s"
  by (simp add: select_ethnicity_def return_def choices_queries split: option.splits)

lemma weighted_select_queries: "queries (snd (weighted_select names t s)) = queries s"
  by (simp add: weighted_select_def raise_def choices_queries split: option.splits)

lemma weighted_select_member:
  "weighted_select names t s = (Inr r, s') \<Longrightarrow> r \<in> set names"
  by (auto simp: weighted_select_def raise_def split: if_splits option.splits
      dest: choices_member)

text \<open>The attribute the sampler reads is the column the query compares.\<close>

lemma prob_column_to_record:
  "prob_column t = Some col \<Longrightarrow>
     \<exists>p. prob_attr t = Some p \<and> (\<forall>r table. p (to_record table r) = col r)"
  by (auto simp: prob_attr_def prob_column_def to_record_def split: if_splits)

lemma build_query_fields:
  "q_table (build_query table t gen m) = table"
  "q_ethnicity (build_query table t gen m) = t"
  "q_min (build_query table t gen m) = m"
  by (simp_all add: build_query_def Let_def split: option.splits)

lemma fetch_names_threshold:
  assumes "fetch_names self table t gen m s = (Inr names, s')" and "n \<in> set names"
  shows "\<exists>p. prob_attr t = Some p \<and> m \<le> p n"
proof -
  let ?q = "build_query table t gen m"
  from assms(1) obtain d rows col where "conn self = Inr d"
    and "table_rows d table = Some rows"
    and col: "prob_column t = Some col"
    and names: "names = map (to_record table) (filter (row_matches col ?q) rows)"
    by (auto simp: fetch_names_def Let_def raise_def return_def execute_def
          build_query_fields split: sum.splits option.splits if_splits)
  from col obtain p where p: "prob_attr t = Some p" "\<forall>r table. p (to_record table r) = col r"
    using prob_column_to_record by blast
  from assms(2) names obtain r where r: "n = to_record table r" "row_matches col ?q r"
    by auto
  have "q_min ?q = m" by (rule build_query_fields)
  with r have "m \<le> col r" by (simp add: row_matches_def)
  with p r show ?thesis by simp
qed

lemma generate_first_name_InrD:
  assumes "generate_first_name self ethnicity gen distribution m s = (Inr r, s')"
  shows "\<exists>t s1 g names s2 s3 thr. select_ethnicity ethnicity distribution s = (Inr t, s1)
     \<and> fetch_names self ''first_names'' t g thr s2 = (Inr names, s3)
     \<and> min m 0.20 \<le> thr
     \<and> weighted_select names t s3 = (Inr r, s')"
  using assms
  apply (simp add: generate_first_name_def and_then_def Let_def raise_def return_def
      split: prod.splits sum.splits if_splits)
   apply force+
  done

lemma generate_last_name_InrD:
  assumes "generate_last_name self ethnicity distribution m s = (Inr r, s')"
  shows "\<exists>t s1 g names s2 s3 thr. select_ethnicity ethnicity distribution s = (Inr t, s1)
     \<and> fetch_names self ''surnames'' t g thr s2 = (Inr names, s3)
     \<and> min m 0.20 \<le> thr
     \<and> weighted_select names t s3 = (Inr r, s')"
  using assms
  apply (simp add: generate_last_name_def and_then_def Let_def raise_def return_def
      split: prod.splits sum.splits if_splits)
   apply force+
  done

lemma picked_name_bound:
  assumes "select_ethnicity ethnicity distribution s = (Inr t, s1)"
    and "fetch_names self table t g thr s2 = (Inr names, s3)"
    and "min m 0.20 \<le> thr"
    and "weighted_select names t s3 = (Inr r, s')"
  shows "\<exists>t p. fst (select_ethnicity ethnicity distribution s) = Inr t \<and> prob_attr t = Some p
           \<and> min m 0.20 \<le> p r"
proof -
  from assms(4) have "r \<in> set names" by (rule weighted_select_member)
  from fetch_names_threshold [OF assms(2) this] obtain p
    where "prob_attr t = Some p" "thr \<le> p r" by blast
  with assms(1,3) show ?thesis by auto
qed

subsection \<open>The probability of a returned name\<close>

text \<open>
  C2 (as the code has it). A name returned by \<^verbatim>\<open>generate_first_name\<close> or
  \<^verbatim>\<open>generate_last_name\<close> has, for the category the request resolved to, a
  probability of at least the smaller of \<^verbatim>\<open>min_probability\<close> and 0.20: at least
  0.20 when the caller's threshold is 0.20 or more, and at least the caller's threshold
  when that is lower.
\<close>

theorem returned_probability_bound:
  assumes "generate_first_name self ethnicity gen distribution m s = (Inr r, s')
         \<or> generate_last_name self ethnicity distribution m s = (Inr r, s')"
  shows "\<exists>t p. fst (select_ethnicity ethnicity distribution s) = Inr t \<and> prob_attr t = Some p
           \<and> min m 0.20 \<le> p r"
  using assms
proof
  assume "generate_first_name self ethnicity gen distribution m s = (Inr r, s')"
  from generate_first_name_InrD [OF this] show ?thesis by (blast intro: picked_name_bound)
next
  assume "generate_last_name self ethnicity distribution m s = (Inr r, s')"
  from generate_last_name_InrD [OF this] show ?thesis by (blast intro: picked_name_bound)
qed

theorem returned_probability_bound_witness:
  "\<exists>t p. fst (select_ethnicity (Some HISPANIC) None (initial_state [0.5])) = Inr t
      \<and> prob_attr t = Some p
      \<and> min 0.40 0.20 \<le> p (to_record ''first_names''
            (first_name_row ''Maria'' ''F'' 10000 0.10 0.05 0.75 0.08 0.02))"
proof -
  have "generate_first_name mock_generator (Some HISPANIC) (Some FEMALE) None 0.40
          (initial_state [0.5]) =
        (Inr (to_record ''first_names''
               (first_name_row ''Maria'' ''F'' 10000 0.10 0.05 0.75 0.08 0.02)),
         \<lparr>rand = draws [0.5], pos = 1,
          queries = [build_query ''first_names'' ''hispanic'' (Some FEMALE) 0.40]\<rparr>)"
    by (simp add: run_defs)
  then show ?thesis by (rule returned_probability_bound [OF disjI1])
qed

text \<open>
  C2 as stated fails: with \<^verbatim>\<open>min_probability\<close> = 0.02, a value in [0, 1], the
  request for category \<^verbatim>\<open>other\<close> on the sample database succeeds at the first
  fetch and returns Maria, whose probability for \<^verbatim>\<open>other\<close> is 0.02.
\<close>

theorem returned_probability_below_fallback:
  "fst (generate_first_name mock_generator (Some OTHER) None None 0.02 (initial_state [0])) =
     Inr (to_record ''first_names''
           (first_name_row ''Maria'' ''F'' 10000 0.10 0.05 0.75 0.08 0.02))
   \<and> prob_other (to_record ''first_names''
           (first_name_row ''Maria'' ''F'' 10000 0.10 0.05 0.75 0.08 0.02)) < 0.20"
  by (simp add: run_defs)

subsection \<open>The query log\<close>

lemma logsI:
  "(\<And>s. \<exists>qs. queries (snd (m s)) = queries s @ qs \<and> (\<forall>q \<in> set qs. P q)) \<Longrightarrow> logs P m"
  by (simp add: logs_def)

lemma logsD:
  "logs P m \<Longrightarrow> \<exists>qs. queries (snd (m s)) = queries s @ qs \<and> (\<forall>q \<in> set qs. P q)"
  by (simp add: logs_def)

lemma logs_return: "logs P (return x)"
  by (simp add: logs_def return_def)

lemma logs_raise: "logs P (raise e)"
  by (simp add: logs_def raise_def)

lemma logs_select_ethnicity: "logs P (select_ethnicity ethnicity distribution)"
  by (simp add: logs_def select_ethnicity_queries)

lemma logs_weighted_select: "logs P (weighted_select names t)"
  by (simp add: logs_def weighted_select_queries)

lemma logs_fetch_names:
  "P (build_query table t gen m) \<Longrightarrow> logs P (fetch_names self table t gen m)"
  by (auto simp: logs_def fetch_names_def Let_def raise_def return_def split: sum.splits)

lemma logs_if: "logs P m \<Longrightarrow> logs P n \<Longrightarrow> logs P (if b then m else n)"
  by simp

lemma logs_and_then:
  assumes "logs P m" and "\<And>x. logs P (f x)"
  shows "logs P (and_then m f)"
proof (rule logsI)
  fix s
  obtain r s1 where m: "m s = (r, s1)" by force
  from logsD [OF assms(1), of s] m obtain qs1
    where qs1: "queries s1 = queries s @ qs1" "\<forall>q \<in> set qs1. P q" by auto
  show "\<exists>qs. queries (snd (and_then m f s)) = queries s @ qs \<and> (\<forall>q \<in> set qs. P q)"
  proof (cases r)
    case (Inl e)
    with m qs1 show ?thesis by (auto simp: and_then_def)
  next
    case (Inr x)
    from logsD [OF assms(2), of x s1] obtain qs2
      where "queries (snd (f x s1)) = queries s1 @ qs2" "\<forall>q \<in> set qs2. P q" by auto
    with m qs1 Inr show ?thesis
      by (intro exI [of _ "qs1 @ qs2"]) (auto simp: and_then_def)
  qed
qed

text \<open>Every query of \<^verbatim>\<open>generate_first_name\<close> is on \<^verbatim>\<open>first_names\<close>, with the
  gender condition of the request.\<close>

lemma logs_generate_first_name:
  "logs (\<lambda>q. q_table q = ''first_names'' \<and>
              q_gender q = (case gen of None \<Rightarrow> None | Some g \<Rightarrow>
                 if g \<noteq> Gender.ANY then Some (Gender_value g) else None))
        (generate_first_name self ethnicity gen distribution m)"
  unfolding generate_first_name_def Let_def
  by (intro logs_and_then logs_if logs_fetch_names logs_return logs_raise
        logs_weighted_select logs_select_ethnicity)
     (simp_all add: build_query_def Let_def split: option.splits)

subsection \<open>An omitted gender\<close>

text \<open>
  C10. \<^verbatim>\<open>generate_first_name\<close> with the gender omitted (\<open>None\<close>) is
  \<^verbatim>\<open>generate_first_name\<close> with \<^verbatim>\<open>Gender.ANY\<close>: from every state (every sequence of
  random draws, every log) the two calls return the same result and leave the same state,
  so the same queries; and no query of the call carries a gender condition.
\<close>

theorem omitted_gender_is_any:
  "generate_first_name self ethnicity None distribution m s =
     generate_first_name self ethnicity (Some Gender.ANY) distribution m s
   \<and> (\<exists>qs. queries (snd (generate_first_name self ethnicity None distribution m s)) =
             queries s @ qs \<and> (\<forall>q \<in> set qs. q_gender q = None))"
proof
  show "generate_first_name self ethnicity None distribution m s =
     generate_first_name self ethnicity (Some Gender.ANY) distribution m s"
    by (simp add: generate_first_name_def)
  from logsD [OF logs_generate_first_name [of None self ethnicity distribution m], of s]
  show "\<exists>qs. queries (snd (generate_first_name self ethnicity None distribution m s)) =
             queries s @ qs \<and> (\<forall>q \<in> set qs. q_gender q = None)"
    by auto
qed

theorem omitted_gender_is_any_witness:
  "generate_first_name mock_generator (Some ASIAN) None None 0.40 (initial_state [0.5]) =
     generate_first_name mock_generator (Some ASIAN) (Some Gender.ANY) None 0.40
       (initial_state [0.5])
   \<and> queries (snd (generate_first_name mock_generator (Some ASIAN) None None 0.40
         (initial_state [0.5]))) =
       [\<lparr>q_table = ''first_names'', q_ethnicity = ''asian'', q_min = 0.40, q_gender = None\<rparr>]"
  using omitted_gender_is_any [of mock_generator "Some ASIAN" None "0.40" "initial_state [0.5]"]
  by (simp add: run_defs)

subsection \<open>A single candidate\<close>

text \<open>
  C8 (as the code has it). On a list of one candidate whose weight for the category is
  positive, the sampler returns that candidate, whatever \<^verbatim>\<open>random()\<close> returns, and
  calls \<^verbatim>\<open>random()\<close> once.
\<close>

theorem singleton_selected:
  assumes "prob_attr ethnicity = Some p"
    and "0 < p r * (1 + real_of_int (count r) / 100000)"
  shows "weighted_select [r] ethnicity s = (Inr r, s\<lparr>pos := Suc (pos s)\<rparr>)"
  using assms
  by (simp add: weighted_select_def weights_of_def choices_def accumulate_def Let_def
      raise_def return_def random_def bisect_right.simps [of _ _ 0 0])

theorem singleton_selected_witness:
  "weighted_select [to_record ''first_names''
        (first_name_row ''Wei'' ''M'' 3000 0.05 0.02 0.03 0.88 0.02)] ''asian''
     (initial_state [0.9]) =
   (Inr (to_record ''first_names'' (first_name_row ''Wei'' ''M'' 3000 0.05 0.02 0.03 0.88 0.02)),
    \<lparr>rand = draws [0.9], pos = 1, queries = []\<rparr>)"
  using singleton_selected [of "''asian''" prob_asian
      "to_record ''first_names'' (first_name_row ''Wei'' ''M'' 3000 0.05 0.02 0.03 0.88 0.02)"
      "initial_state [0.9]"]
  by (simp add: prob_attr_def to_record_def first_name_row_def initial_state_def)

text \<open>
  C8 as stated fails: a single candidate whose probability for the category is 0 has
  weight 0, and \<^verbatim>\<open>random.choices\<close> raises \<^verbatim>\<open>ValueError\<close> on a total weight of 0.
\<close>

theorem singleton_zero_weight_fails:
  "weighted_select [to_record ''first_names''
        (first_name_row ''Wei'' ''M'' 3000 0 0.02 0.03 0.88 0.02)] ''white''
     (initial_state [0.9]) =
   (Inl (ValueError ''Total of weights must be greater than zero''), initial_state [0.9])"
  by (simp add: run_defs)

subsection \<open>The errors of a request\<close>









subsection \<open>Batches\<close>

lemma batch_loop_results:
  assumes "batch_loop k self ethnicity gen include_surnames distribution acc s =
             (Inr results, s')"
  shows "length results = length acc + k \<and>
         (\<forall>r \<in> set results. r \<in> set acc \<or>
            (''first_name'' \<in> set (map fst r) \<and>
             (include_surnames \<longrightarrow> ''full_name'' \<in> set (map fst r))))"
  using assms
proof (induction k arbitrary: acc s)
  case 0
  then show ?case by (simp add: return_def)
next
  case (Suc k)
  show ?case
  proof (cases include_surnames)
    case True
    with Suc.prems obtain first_rec last_rec s1 where
      "batch_loop k self ethnicity gen include_surnames distribution
         (acc @ [full_entry first_rec last_rec]) s1 = (Inr results, s')"
      by (auto dest!: and_then_Inr)
    from Suc.IH [OF this] True show ?thesis by (auto simp: full_entry_def)
  next
    case False
    with Suc.prems obtain first_rec s1 where
      "batch_loop k self ethnicity gen include_surnames distribution
         (acc @ [first_entry first_rec]) s1 = (Inr results, s')"
      by (auto dest!: and_then_Inr)
    from Suc.IH [OF this] False show ?thesis by (auto simp: first_entry_def)
  qed
qed

text \<open>
  C9. A call of \<^verbatim>\<open>generate_batch\<close> with \<^verbatim>\<open>count\<close> = N, N at least 0, that returns,
  returns a list of exactly N dictionaries; each has the key \<^verbatim>\<open>first_name\<close>, and
  the key \<^verbatim>\<open>full_name\<close> too when \<^verbatim>\<open>include_surnames\<close> is true.
\<close>

theorem batch_count:
  assumes "generate_batch self cnt ethnicity gen include_surnames distribution s =
             (Inr results, s')"
    and "0 \<le> cnt"
  shows "int (length results) = cnt \<and>
         (\<forall>r \<in> set results. ''first_name'' \<in> set (map fst r) \<and>
            (include_surnames \<longrightarrow> ''full_name'' \<in> set (map fst r)))"
  using batch_loop_results [OF assms(1) [unfolded generate_batch_def]] assms(2) by auto

theorem batch_count_witness:
  "\<exists>results s'.
      generate_batch mock_generator 2 (Some HISPANIC) (Some Gender.ANY) True None
        (initial_state [0.1, 0.9, 0.6, 0.2]) = (Inr results, s')
    \<and> int (length results) = 2
    \<and> (\<forall>r \<in> set results. ''first_name'' \<in> set (map fst r) \<and> ''full_name'' \<in> set (map fst r))"
proof -
  have "\<exists>results s'.
      generate_batch mock_generator 2 (Some HISPANIC) (Some Gender.ANY) True None
        (initial_state [0.1, 0.9, 0.6, 0.2]) = (Inr results, s')"
    by (simp add: generate_batch_def numeral_2_eq_2 run_defs)
  then obtain results s' where run:
    "generate_batch mock_generator 2 (Some HISPANIC) (Some Gender.ANY) True None
        (initial_state [0.1, 0.9, 0.6, 0.2]) = (Inr results, s')"
    by blast
  from batch_count [OF run] have "int (length results) = 2 \<and>
      (\<forall>r \<in> set results. ''first_name'' \<in> set (map fst r) \<and> ''full_name'' \<in> set (map fst r))"
    by simp
  with run show ?thesis by blast
qed

subsection \<open>What a fetch returns\<close>


lemma fetch_names_run:
  assumes "conn self = Inr d"
  shows "fetch_names self table t gen m s =
     ((case execute d (build_query table t gen m) of
         Inl e \<Rightarrow> Inl e | Inr rows \<Rightarrow> Inr (map (to_record table) rows)),
      s\<lparr>queries := queries s @ [build_query table t gen m]\<rparr>)"
  using assms by (simp add: fetch_names_def Let_def raise_def return_def split: sum.splits)




subsection \<open>The threshold fallback\<close>

lemma fetch_names_success_conn:
  "fst (fetch_names self table t gen m s) = Inr names \<Longrightarrow> \<exists>d. conn self = Inr d"
  by (auto simp: fetch_names_def Let_def raise_def return_def split: sum.splits)

text \<open>Whether a fetch succeeds does not depend on the threshold or the state.\<close>

lemma fetch_names_success_other_threshold:
  "fst (fetch_names self table t gen m s) = Inr names \<Longrightarrow>
     \<exists>names'. fst (fetch_names self table t gen m' s') = Inr names'"
  by (auto simp: fetch_names_def Let_def raise_def return_def execute_def build_query_fields
      split: sum.splits option.splits)

lemma first_name_fallback:
  assumes sel: "select_ethnicity ethnicity distribution s = (Inr t, s1)"
    and empty: "fst (fetch_names self ''first_names'' t
                  (Some (case gen of None \<Rightarrow> Gender.ANY | Some g \<Rightarrow> g)) 0.40 s1) = Inr []"
  shows "\<exists>names.
      fst (fetch_names self ''first_names'' t
            (Some (case gen of None \<Rightarrow> Gender.ANY | Some g \<Rightarrow> g)) 0.20 s1) = Inr names
    \<and> generate_first_name self ethnicity gen distribution 0.40 s =
        (if names = [] then
           raise (ValueError (''No first names found for ethnicity='' @ t @ '', gender='' @
             Gender_value (case gen of None \<Rightarrow> Gender.ANY | Some g \<Rightarrow> g)))
         else weighted_select names t)
          (s1\<lparr>queries := queries s @
             [build_query ''first_names'' t
                (Some (case gen of None \<Rightarrow> Gender.ANY | Some g \<Rightarrow> g)) 0.40,
              build_query ''first_names'' t
                (Some (case gen of None \<Rightarrow> Gender.ANY | Some g \<Rightarrow> g)) 0.20]\<rparr>)"
proof -
  let ?g = "Some (case gen of None \<Rightarrow> Gender.ANY | Some g \<Rightarrow> g)"
  from empty obtain d where d: "conn self = Inr d" using fetch_names_success_conn by blast
  from empty obtain names
    where names: "fst (fetch_names self ''first_names'' t ?g 0.20 s1) = Inr names"
    using fetch_names_success_other_threshold by blast
  have q: "queries s1 = queries s"
    using select_ethnicity_queries [of ethnicity distribution s] sel by simp
  from empty d have e40: "execute d (build_query ''first_names'' t ?g 0.40) = Inr []"
    by (simp add: fetch_names_run split: sum.splits)
  from names d have e20: "(case execute d (build_query ''first_names'' t ?g 0.20) of
         Inl e \<Rightarrow> Inl e | Inr rows \<Rightarrow> Inr (map (to_record ''first_names'') rows)) = Inr names"
    by (simp add: fetch_names_run)
  have "generate_first_name self ethnicity gen distribution 0.40 s =
        (if names = [] then
           raise (ValueError (''No first names found for ethnicity='' @ t @ '', gender='' @
             Gender_value (case gen of None \<Rightarrow> Gender.ANY | Some g \<Rightarrow> g)))
         else weighted_select names t)
          (s1\<lparr>queries := queries s @
             [build_query ''first_names'' t ?g 0.40, build_query ''first_names'' t ?g 0.20]\<rparr>)"
    using sel d e40 e20 q
    by (simp add: generate_first_name_def and_then_def Let_def fetch_names_run return_def)
  with names show ?thesis by blast
qed

lemma last_name_fallback:
  assumes sel: "select_ethnicity ethnicity distribution s = (Inr t, s1)"
    and empty: "fst (fetch_names self ''surnames'' t None 0.40 s1) = Inr []"
  shows "\<exists>names.
      fst (fetch_names self ''surnames'' t None 0.20 s1) = Inr names
    \<and> generate_last_name self ethnicity distribution 0.40 s =
        (if names = [] then raise (ValueError (''No surnames found for ethnicity='' @ t))
         else weighted_select names t)
          (s1\<lparr>queries := queries s @
             [build_query ''surnames'' t None 0.40, build_query ''surnames'' t None 0.20]\<rparr>)"
proof -
  from empty obtain d where d: "conn self = Inr d" using fetch_names_success_conn by blast
  from empty obtain names
    where names: "fst (fetch_names self ''surnames'' t None 0.20 s1) = Inr names"
    using fetch_names_success_other_threshold by blast
  have q: "queries s1 = queries s"
    using select_ethnicity_queries [of ethnicity distribution s] sel by simp
  from empty d have e40: "execute d (build_query ''surnames'' t None 0.40) = Inr []"
    by (simp add: fetch_names_run split: sum.splits)
  from names d have e20: "(case execute d (build_query ''surnames'' t None 0.20) of
         Inl e \<Rightarrow> Inl e | Inr rows \<Rightarrow> Inr (map (to_record ''surnames'') rows)) = Inr names"
    by (simp add: fetch_names_run)
  have "generate_last_name self ethnicity distribution 0.40 s =
        (if names = [] then raise (ValueError (''No surnames found for ethnicity='' @ t))
         else weighted_select names t)
          (s1\<lparr>queries := queries s @
             [build_query ''surnames'' t None 0.40, build_query ''surnames'' t None 0.20]\<rparr>)"
    using sel d e40 e20 q
    by (simp add: generate_last_name_def and_then_def Let_def fetch_names_run return_def)
  with names show ?thesis by blast
qed

lemma fallback_log:
  "queries (snd ((if names = [] then raise e else weighted_select names t) s)) = queries s"
  by (simp add: raise_def weighted_select_queries)

text \<open>
  C1. Take a call of \<^verbatim>\<open>generate_first_name\<close> (of \<^verbatim>\<open>generate_last_name\<close>) with
  \<^verbatim>\<open>min_probability\<close> = 0.40 whose category resolves to \<open>t\<close> and whose fetch at 0.40
  returns the empty list. Then the call runs exactly two queries, the one at 0.40 and
  after it the same one at 0.20, and no third; with \<open>names\<close> what the fetch at 0.20
  returns, the call fails with \<^verbatim>\<open>ValueError("No first names found ...")\<close>
  (\<^verbatim>\<open>"No surnames found ..."\<close>) when \<open>names\<close> is empty, and otherwise is the sampler's
  pick from \<open>names\<close>.
\<close>

theorem threshold_fallback_once:
  assumes "select_ethnicity ethnicity distribution s = (Inr t, s1)"
  shows "(fst (fetch_names self ''first_names'' t
                (Some (case gen of None \<Rightarrow> Gender.ANY | Some g \<Rightarrow> g)) 0.40 s1) = Inr [] \<longrightarrow>
          (\<exists>names.
             fst (fetch_names self ''first_names'' t
                   (Some (case gen of None \<Rightarrow> Gender.ANY | Some g \<Rightarrow> g)) 0.20 s1) = Inr names
           \<and> generate_first_name self ethnicity gen distribution 0.40 s =
               (if names = [] then
                  raise (ValueError (''No first names found for ethnicity='' @ t @
                    '', gender='' @
                    Gender_value (case gen of None \<Rightarrow> Gender.ANY | Some g \<Rightarrow> g)))
                else weighted_select names t)
                 (s1\<lparr>queries := queries s @
                    [build_query ''first_names'' t
                       (Some (case gen of None \<Rightarrow> Gender.ANY | Some g \<Rightarrow> g)) 0.40,
                     build_query ''first_names'' t
                       (Some (case gen of None \<Rightarrow> Gender.ANY | Some g \<Rightarrow> g)) 0.20]\<rparr>)
           \<and> queries (snd (generate_first_name self ethnicity gen distribution 0.40 s)) =
               queries s @
                 [build_query ''first_names'' t
                    (Some (case gen of None \<Rightarrow> Gender.ANY | Some g \<Rightarrow> g)) 0.40,
                  build_query ''first_names'' t
                    (Some (case gen of None \<Rightarrow> Gender.ANY | Some g \<Rightarrow> g)) 0.20]))
       \<and> (fst (fetch_names self ''surnames'' t None 0.40 s1) = Inr [] \<longrightarrow>
          (\<exists>names.
             fst (fetch_names self ''surnames'' t None 0.20 s1) = Inr names
           \<and> generate_last_name self ethnicity distribution 0.40 s =
               (if names = [] then
                  raise (ValueError (''No surnames found for ethnicity='' @ t))
                else weighted_select names t)
                 (s1\<lparr>queries := queries s @
                    [build_query ''surnames'' t None 0.40,
                     build_query ''surnames'' t None 0.20]\<rparr>)
           \<and> queries (snd (generate_last_name self ethnicity distribution 0.40 s)) =
               queries s @
                 [build_query ''surnames'' t None 0.40, build_query ''surnames'' t None 0.20]))"
proof (intro conjI impI)
  assume "fst (fetch_names self ''first_names'' t
                (Some (case gen of None \<Rightarrow> Gender.ANY | Some g \<Rightarrow> g)) 0.40 s1) = Inr []"
  from first_name_fallback [OF assms this] obtain names where
    n: "fst (fetch_names self ''first_names'' t
             (Some (case gen of None \<Rightarrow> Gender.ANY | Some g \<Rightarrow> g)) 0.20 s1) = Inr names"
    and r: "generate_first_name self ethnicity gen distribution 0.40 s =
        (if names = [] then
           raise (ValueError (''No first names found for ethnicity='' @ t @ '', gender='' @
             Gender_value (case gen of None \<Rightarrow> Gender.ANY | Some g \<Rightarrow> g)))
         else weighted_select names t)
          (s1\<lparr>queries := queries s @
             [build_query ''first_names'' t
                (Some (case gen of None \<Rightarrow> Gender.ANY | Some g \<Rightarrow> g)) 0.40,
              build_query ''first_names'' t
                (Some (case gen of None \<Rightarrow> Gender.ANY | Some g \<Rightarrow> g)) 0.20]\<rparr>)"
    by blast
  from r have "queries (snd (generate_first_name self ethnicity gen distribution 0.40 s)) =
      queries s @
        [build_query ''first_names'' t
           (Some (case gen of None \<Rightarrow> Gender.ANY | Some g \<Rightarrow> g)) 0.40,
         build_query ''first_names'' t
           (Some (case gen of None \<Rightarrow> Gender.ANY | Some g \<Rightarrow> g)) 0.20]"
    by (simp only: fallback_log) simp
  with n r show "\<exists>names.
             fst (fetch_names self ''first_names'' t
                   (Some (case gen of None \<Rightarrow> Gender.ANY | Some g \<Rightarrow> g)) 0.20 s1) = Inr names
           \<and> generate_first_name self ethnicity gen distribution 0.40 s =
               (if names = [] then
                  raise (ValueError (''No first names found for ethnicity='' @ t @
                    '', gender='' @
                    Gender_value (case gen of None \<Rightarrow> Gender.ANY | Some g \<Rightarrow> g)))
                else weighted_select names t)
                 (s1\<lparr>queries := queries s @
                    [build_query ''first_names'' t
                       (Some (case gen of None \<Rightarrow> Gender.ANY | Some g \<Rightarrow> g)) 0.40,
                     build_query ''first_names'' t
                       (Some (case gen of None \<Rightarrow> Gender.ANY | Some g \<Rightarrow> g)) 0.20]\<rparr>)
           \<and> queries (snd (generate_first_name self ethnicity gen distribution 0.40 s)) =
               queries s @
                 [build_query ''first_names'' t
                    (Some (case gen of None \<Rightarrow> Gender.ANY | Some g \<Rightarrow> g)) 0.40,
                  build_query ''first_names'' t
                    (Some (case gen of None \<Rightarrow> Gender.ANY | Some g \<Rightarrow> g)) 0.20]"
    by blast
next
  assume "fst (fetch_names self ''surnames'' t None 0.40 s1) = Inr []"
  from last_name_fallback [OF assms this] obtain names where
    n: "fst (fetch_names self ''surnames'' t None 0.20 s1) = Inr names"
    and r: "generate_last_name self ethnicity distribution 0.40 s =
        (if names = [] then raise (ValueError (''No surnames found for ethnicity='' @ t))
         else weighted_select names t)
          (s1\<lparr>queries := queries s @
             [build_query ''surnames'' t None 0.40, build_query ''surnames'' t None 0.20]\<rparr>)"
    by blast
  from r have "queries (snd (generate_last_name self ethnicity distribution 0.40 s)) =
      queries s @ [build_query ''surnames'' t None 0.40, build_query ''surnames'' t None 0.20]"
    by (simp only: fallback_log) simp
  with n r show "\<exists>names.
             fst (fetch_names self ''surnames'' t None 0.20 s1) = Inr names
           \<and> generate_last_name self ethnicity distribution 0.40 s =
               (if names = [] then
                  raise (ValueError (''No surnames found for ethnicity='' @ t))
                else weighted_select names t)
                 (s1\<lparr>queries := queries s @
                    [build_query ''surnames'' t None 0.40,
                     build_query ''surnames'' t None 0.20]\<rparr>)
           \<and> queries (snd (generate_last_name self ethnicity distribution 0.40 s)) =
               queries s @
                 [build_query ''surnames'' t None 0.40, build_query ''surnames'' t None 0.20]"
    by blast
qed

theorem threshold_fallback_once_witness:
  "generate_first_name relaxed_generator (Some WHITE) None None 0.40 (initial_state [0.5]) =
     (Inr (to_record ''first_names'' (first_name_row ''Alex'' ''M'' 100 0.35 0.25 0.20 0.10 0.10)),
      \<lparr>rand = draws [0.5], pos = 1,
       queries = [build_query ''first_names'' ''white'' (Some Gender.ANY) 0.40,
                  build_query ''first_names'' ''white'' (Some Gender.ANY) 0.20]\<rparr>)
   \<and> generate_last_name mock_generator (Some OTHER) None 0.40 (initial_state [0.5]) =
     (Inl (ValueError ''No surnames found for ethnicity=other''),
      \<lparr>rand = draws [0.5], pos = 0,
       queries = [build_query ''surnames'' ''other'' None 0.40,
                  build_query ''surnames'' ''other'' None 0.20]\<rparr>)"
proof -
  have w: "select_ethnicity (Some WHITE) None (initial_state [0.5]) =
             (Inr ''white'', initial_state [0.5])"
    by (simp add: select_ethnicity_def return_def)
  have o: "select_ethnicity (Some OTHER) None (initial_state [0.5]) =
             (Inr ''other'', initial_state [0.5])"
    by (simp add: select_ethnicity_def return_def)
  have w40: "fst (fetch_names relaxed_generator ''first_names'' ''white''
                (Some (case None of None \<Rightarrow> Gender.ANY | Some g \<Rightarrow> g)) 0.40
                (initial_state [0.5])) = Inr []"
    by (simp add: run_defs relaxed_generator_def)
  have o40: "fst (fetch_names mock_generator ''surnames'' ''other'' None 0.40
                (initial_state [0.5])) = Inr []"
    by (simp add: run_defs)
  from threshold_fallback_once [OF w, of relaxed_generator None] w40
  have "generate_first_name relaxed_generator (Some WHITE) None None 0.40 (initial_state [0.5]) =
     (Inr (to_record ''first_names'' (first_name_row ''Alex'' ''M'' 100 0.35 0.25 0.20 0.10 0.10)),
      \<lparr>rand = draws [0.5], pos = 1,
       queries = [build_query ''first_names'' ''white'' (Some Gender.ANY) 0.40,
                  build_query ''first_names'' ''white'' (Some Gender.ANY) 0.20]\<rparr>)"
    by (simp add: run_defs relaxed_generator_def)
  moreover from threshold_fallback_once [OF o, of mock_generator None] o40
  have "generate_last_name mock_generator (Some OTHER) None 0.40 (initial_state [0.5]) =
     (Inl (ValueError ''No surnames found for ethnicity=other''),
      \<lparr>rand = draws [0.5], pos = 0,
       queries = [build_query ''surnames'' ''other'' None 0.40,
                  build_query ''surnames'' ''other'' None 0.20]\<rparr>)"
    by (simp add: run_defs)
  ultimately show ?thesis by simp
qed

subsection \<open>A missing database\<close>






subsection \<open>Selection in proportion to the weights\<close>













subsection \<open>One category for both halves of a full name\<close>

lemma and_then_select_concrete:
  "e \<noteq> Ethnicity.ANY \<Longrightarrow>
     and_then (select_ethnicity (Some e) distribution) f = f (Ethnicity_value e)"
  by (rule ext) (simp add: and_then_def select_ethnicity_concrete)

lemma logs_generate_first_name_concrete:
  assumes "e \<noteq> Ethnicity.ANY"
  shows "logs (\<lambda>q. q_ethnicity q = Ethnicity_value e)
           (generate_first_name self (Some e) gen distribution m)"
  unfolding generate_first_name_def Let_def and_then_select_concrete [OF assms]
  by (intro logs_and_then logs_if logs_fetch_names logs_return logs_raise logs_weighted_select)
     (simp_all add: build_query_fields)

lemma logs_generate_last_name_concrete:
  assumes "e \<noteq> Ethnicity.ANY"
  shows "logs (\<lambda>q. q_ethnicity q = Ethnicity_value e)
           (generate_last_name self (Some e) distribution m)"
  unfolding generate_last_name_def and_then_select_concrete [OF assms]
  by (intro logs_and_then logs_if logs_fetch_names logs_return logs_raise logs_weighted_select)
     (simp_all add: build_query_fields)

lemma Ethnicity_of_value: "Ethnicity_of t = Inr e \<Longrightarrow> Ethnicity_value e = t"
  by (auto simp: Ethnicity_of_def split: if_splits)

text \<open>
  When the category \<^verbatim>\<open>generate_full_name\<close> resolves to is not \<^verbatim>\<open>any\<close>, the two calls
  it makes are given that category, their own resolution returns it without a draw and
  without a change of state, and every query of the request is on that category.
\<close>

lemma full_name_coherent:
  assumes run: "generate_full_name self ethnicity gen distribution m s =
                  (Inr (first_name, last_name), s')"
    and concrete: "fst (select_ethnicity ethnicity distribution s) \<noteq> Inr ''any''"
  shows "\<exists>t e s1 s2 qs.
      select_ethnicity ethnicity distribution s = (Inr t, s1)
    \<and> Ethnicity_of t = Inr e \<and> e \<noteq> Ethnicity.ANY \<and> Ethnicity_value e = t
    \<and> select_ethnicity (Some e) distribution s1 = (Inr t, s1)
    \<and> generate_first_name self (Some e) gen distribution m s1 = (Inr first_name, s2)
    \<and> select_ethnicity (Some e) distribution s2 = (Inr t, s2)
    \<and> generate_last_name self (Some e) distribution m s2 = (Inr last_name, s')
    \<and> queries s' = queries s @ qs \<and> (\<forall>q \<in> set qs. q_ethnicity q = t)"
proof -
  from run obtain t s1 where sel: "select_ethnicity ethnicity distribution s = (Inr t, s1)"
    and rest: "and_then (\<lambda>s. (Ethnicity_of t, s)) (\<lambda>e1.
         and_then (generate_first_name self (Some e1) gen distribution m)
           (\<lambda>first_name.
              and_then (\<lambda>s. (Ethnicity_of t, s)) (\<lambda>e2.
                and_then (generate_last_name self (Some e2) distribution m)
                  (\<lambda>last_name. return (first_name, last_name))))) s1 =
         (Inr (first_name, last_name), s')"
    unfolding generate_full_name_def by (blast dest: and_then_Inr)
  from rest obtain e where e: "Ethnicity_of t = Inr e"
    and rest1: "and_then (generate_first_name self (Some e) gen distribution m)
           (\<lambda>first_name.
              and_then (\<lambda>s. (Ethnicity_of t, s)) (\<lambda>e2.
                and_then (generate_last_name self (Some e2) distribution m)
                  (\<lambda>last_name. return (first_name, last_name)))) s1 =
         (Inr (first_name, last_name), s')"
    by (auto dest!: and_then_Inr [of "\<lambda>s. (Ethnicity_of t, s)"])
  from rest1 e obtain f s2
    where f: "generate_first_name self (Some e) gen distribution m s1 = (Inr f, s2)"
    and rest2: "and_then (generate_last_name self (Some e) distribution m)
                  (\<lambda>last_name. return (f, last_name)) s2 = (Inr (first_name, last_name), s')"
    by (auto simp: and_then_def split: prod.splits sum.splits)
  from rest2 have l: "generate_last_name self (Some e) distribution m s2 = (Inr last_name, s')"
    and ff: "f = first_name"
    by (auto simp: and_then_def return_def split: prod.splits sum.splits)
  from e have v: "Ethnicity_value e = t" by (rule Ethnicity_of_value)
  with concrete sel have ne: "e \<noteq> Ethnicity.ANY" by auto
  have q1: "queries s1 = queries s"
    using select_ethnicity_queries [of ethnicity distribution s] sel by simp
  from logsD [OF logs_generate_first_name_concrete [OF ne], of self gen distribution m s1] f v
  obtain qs1 where qs1: "queries s2 = queries s1 @ qs1" "\<forall>q \<in> set qs1. q_ethnicity q = t"
    by auto
  from logsD [OF logs_generate_last_name_concrete [OF ne], of self distribution m s2] l v
  obtain qs2 where qs2: "queries s' = queries s2 @ qs2" "\<forall>q \<in> set qs2. q_ethnicity q = t"
    by auto
  from qs1 qs2 q1 have "queries s' = queries s @ (qs1 @ qs2)"
    "\<forall>q \<in> set (qs1 @ qs2). q_ethnicity q = t" by auto
  with sel e ne v f ff l select_ethnicity_concrete [OF ne, of distribution] show ?thesis
    by blast
qed


end
